theory Spec2Isabelle
  imports Complex_Main "HOL-Library.List_Lexorder"
begin

section \<open>Python values used by the report engine\<close>

text \<open>
  A Python \<^verbatim>\<open>str\<close> is a sequence of Unicode code points, compared with \<^verbatim>\<open>==\<close>
  by content and with \<^verbatim>\<open><\<close> lexicographically by code point. It is modelled as a
  list of code points; the lexicographic order on lists is exactly Python's order.
  Literals of the source are written \<open>str_of ''...''\<close>.
\<close>

type_synonym pystr = "nat list"

definition str_of :: "string \<Rightarrow> pystr" where
  "str_of s = map of_char s"

text \<open>
  \<^verbatim>\<open>str.strip()\<close> without argument removes leading and trailing white space, that is
  the code points for which \<^verbatim>\<open>str.isspace\<close> holds: TAB..CR, FS..US, SPACE, NEL, NBSP,
  U+1680, U+2000..U+200A, U+2028, U+2029, U+202F, U+205F and U+3000.
\<close>

definition isspace :: "nat \<Rightarrow> bool" where
  "isspace c \<longleftrightarrow>
     (9 \<le> c \<and> c \<le> 13) \<or> (28 \<le> c \<and> c \<le> 32) \<or> c = 133 \<or> c = 160 \<or> c = 5760 \<or>
     (8192 \<le> c \<and> c \<le> 8202) \<or> c = 8232 \<or> c = 8233 \<or> c = 8239 \<or> c = 8287 \<or> c = 12288"

definition lstrip :: "pystr \<Rightarrow> pystr" where
  "lstrip s = dropWhile isspace s"

definition rstrip :: "pystr \<Rightarrow> pystr" where
  "rstrip s = rev (dropWhile isspace (rev s))"

definition strip :: "pystr \<Rightarrow> pystr" where
  "strip s = rstrip (lstrip s)"

text \<open>
  Numbers. The scoring code mixes Python ints and floats. Every float it computes before
  rounding is a multiple of \<open>1/4\<close> of small magnitude (or is replaced by the cap), hence
  exactly representable in binary floating point, so \<^verbatim>\<open>*\<close>, \<^verbatim>\<open>+\<close> and \<^verbatim>\<open>min\<close> are exact
  and are modelled on \<^typ>\<open>real\<close>. \<^verbatim>\<open>round(x, 1)\<close> rounds the exact value of \<open>x\<close> to one
  decimal, ties to the even digit, and returns the float nearest to that decimal; the model
  returns the decimal itself. The source only compares the rounded value with the integers
  8, 6 and 4, where the decimal and its nearest float agree.
\<close>

definition round_half_even :: "real \<Rightarrow> int" where
  "round_half_even x =
     (let f = \<lfloor>x\<rfloor>; d = x - of_int f
      in if d < 1/2 then f
         else if 1/2 < d then f + 1
         else if even f then f else f + 1)"

definition py_round :: "real \<Rightarrow> nat \<Rightarrow> real" where
  "py_round x ndigits = of_int (round_half_even (x * 10 ^ ndigits)) / 10 ^ ndigits"

text \<open>\<^verbatim>\<open>d.get(k, default)\<close> on a dict given by its items.\<close>

definition dict_get :: "('k \<times> 'v) list \<Rightarrow> 'k \<Rightarrow> 'v \<Rightarrow> 'v" where
  "dict_get d k dflt = (case map_of d k of Some v \<Rightarrow> v | None \<Rightarrow> dflt)"


section \<open>Data model\<close>

definition SEVERITY_WEIGHTS :: "(pystr \<times> int) list" where
  "SEVERITY_WEIGHTS =
     [(str_of ''Low'', 1), (str_of ''Medium'', 2), (str_of ''High'', 3), (str_of ''Critical'', 4)]"

record TimelineEvent =
  timestamp :: pystr
  description :: pystr
  source :: pystr

record IOC =
  ioc_type :: pystr
  ioc_value :: pystr
  ioc_context :: pystr

record AffectedSystem =
  hostname :: pystr
  ip_address :: pystr
  impact :: pystr

record IncidentReport =
  title :: pystr
  severity :: pystr
  category :: pystr
  analyst :: pystr
  description :: pystr
  detection_date :: pystr
  containment_date :: pystr
  eradication_date :: pystr
  recovery_date :: pystr
  executive_summary :: pystr
  incident_id :: pystr
  created_at :: pystr
  timeline_events :: "TimelineEvent list"
  iocs :: "IOC list"
  affected_systems :: "AffectedSystem list"
  recommendations :: "pystr list"


section \<open>Severity scoring\<close>

text \<open>The dict returned by \<^verbatim>\<open>calculate_severity_score\<close>, with its nested breakdown.\<close>

record Breakdown =
  base_severity :: int
  ioc_factor :: real
  system_factor :: real
  critical_bonus :: real

record SeverityScore =
  score :: real
  rating :: pystr
  breakdown :: Breakdown

definition calculate_severity_score :: "IncidentReport \<Rightarrow> SeverityScore" where
  "calculate_severity_score self =
     (let base = dict_get SEVERITY_WEIGHTS (severity self) 2;
          iocf = min (real (length (iocs self)) * 0.5) 3;
          sysf = min (real (length (affected_systems self)) * 0.75) 3;
          bonus = (if severity self = str_of ''Critical'' then 1.5 else 0);
          raw = of_int base + iocf + sysf + bonus;
          sc = py_round (min raw 10) 1;
          rt = (if sc \<ge> 8 then str_of ''CRITICAL''
                else if sc \<ge> 6 then str_of ''HIGH''
                else if sc \<ge> 4 then str_of ''MEDIUM''
                else str_of ''LOW'')
      in \<lparr>score = sc, rating = rt,
          breakdown = \<lparr>base_severity = base, ioc_factor = py_round iocf 1,
                       system_factor = py_round sysf 1, critical_bonus = bonus\<rparr>\<rparr>)"


section \<open>Construction\<close>

text \<open>
  The dataclass constructor stores the supplied fields, the defaults for the others, and
  then runs \<^verbatim>\<open>__post_init__\<close>. The clock, the random UUID and SHA-256 are outside
  the program; what they yield during one construction is an input of the model:
  \<open>date_part\<close> is \<^verbatim>\<open>utcnow().strftime("%Y%m%d")\<close>, \<open>hash_suffix\<close> maps the title to the
  four upper-case hex digits of the digest, and \<open>now_stamp\<close> is
  \<^verbatim>\<open>utcnow().strftime("%Y-%m-%d %H:%M:%S UTC")\<close>.
\<close>

record Env =
  date_part :: pystr
  hash_suffix :: "pystr \<Rightarrow> pystr"
  now_stamp :: pystr

definition generate_incident_id :: "Env \<Rightarrow> IncidentReport \<Rightarrow> pystr" where
  "generate_incident_id env self =
     str_of ''IR-'' @ date_part env @ str_of ''-'' @ hash_suffix env (title self)"

definition post_init :: "Env \<Rightarrow> IncidentReport \<Rightarrow> IncidentReport" where
  "post_init env self =
     (let self1 = (if incident_id self = [] then self\<lparr>incident_id := generate_incident_id env self\<rparr>
                   else self);
          self2 = (if created_at self1 = [] then self1\<lparr>created_at := now_stamp env\<rparr>
                   else self1)
      in self2)"

text \<open>The field values of \<^verbatim>\<open>IncidentReport(title=t)\<close> before \<^verbatim>\<open>__post_init__\<close> runs.\<close>

definition default_fields :: "pystr \<Rightarrow> IncidentReport" where
  "default_fields t =
     \<lparr>title = t, severity = str_of ''Medium'', category = str_of ''Other'', analyst = [],
      description = [], detection_date = [], containment_date = [], eradication_date = [],
      recovery_date = [], executive_summary = [], incident_id = [], created_at = [],
      timeline_events = [], iocs = [], affected_systems = [], recommendations = []\<rparr>"


section \<open>Builder methods\<close>

definition add_timeline_event ::
    "IncidentReport \<Rightarrow> pystr \<Rightarrow> pystr \<Rightarrow> pystr \<Rightarrow> IncidentReport" where
  "add_timeline_event self ts descr src =
     (let event = \<lparr>timestamp = ts, description = descr, source = src\<rparr>;
          appended = timeline_events self @ [event]
      in self\<lparr>timeline_events := sort_key timestamp appended\<rparr>)"

definition add_ioc :: "IncidentReport \<Rightarrow> pystr \<Rightarrow> pystr \<Rightarrow> pystr \<Rightarrow> IncidentReport" where
  "add_ioc self ty v ctx =
     (let indicator = \<lparr>ioc_type = ty, ioc_value = v, ioc_context = ctx\<rparr>
      in self\<lparr>iocs := iocs self @ [indicator]\<rparr>)"

definition add_affected_system ::
    "IncidentReport \<Rightarrow> pystr \<Rightarrow> pystr \<Rightarrow> pystr \<Rightarrow> IncidentReport" where
  "add_affected_system self h ip imp =
     (let system = \<lparr>hostname = h, ip_address = ip, impact = imp\<rparr>
      in self\<lparr>affected_systems := affected_systems self @ [system]\<rparr>)"

definition add_recommendation :: "IncidentReport \<Rightarrow> pystr \<Rightarrow> IncidentReport" where
  "add_recommendation self recommendation =
     (if strip recommendation \<noteq> []
      then self\<lparr>recommendations := recommendations self @ [strip recommendation]\<rparr>
      else self)"

text \<open>
  The loops of the request handler, which call a builder once per submitted item, in
  order. A timeline call is the triple (timestamp, description, source).
\<close>

fun add_timeline_events ::
    "IncidentReport \<Rightarrow> (pystr \<times> pystr \<times> pystr) list \<Rightarrow> IncidentReport" where
  "add_timeline_events self [] = self"
| "add_timeline_events self ((ts, descr, src) # calls) =
     add_timeline_events (add_timeline_event self ts descr src) calls"

fun add_recommendations :: "IncidentReport \<Rightarrow> pystr list \<Rightarrow> IncidentReport" where
  "add_recommendations self [] = self"
| "add_recommendations self (rec # recs) =
     add_recommendations (add_recommendation self rec) recs"

text \<open>The event that a call to \<open>add_timeline_event\<close> creates.\<close>

definition event_of_call :: "pystr \<times> pystr \<times> pystr \<Rightarrow> TimelineEvent" where
  "event_of_call c =
     (case c of (ts, descr, src) \<Rightarrow> \<lparr>timestamp = ts, description = descr, source = src\<rparr>)"


section \<open>The scoring formula as the specification words it\<close>

definition spec_base :: "pystr \<Rightarrow> real" where
  "spec_base s =
     (if s = str_of ''Low'' then 1
      else if s = str_of ''Medium'' then 2
      else if s = str_of ''High'' then 3
      else if s = str_of ''Critical'' then 4
      else 2)"

definition spec_ioc_factor :: "nat \<Rightarrow> real" where
  "spec_ioc_factor n = min (0.5 * real n) 3.0"

definition spec_system_factor :: "nat \<Rightarrow> real" where
  "spec_system_factor n = min (0.75 * real n) 3.0"

definition spec_critical_bonus :: "pystr \<Rightarrow> real" where
  "spec_critical_bonus s = (if s = str_of ''Critical'' then 1.5 else 0)"


section \<open>Serialization\<close>

text \<open>
  The JSON-like values \<^verbatim>\<open>to_dict\<close> builds. A dict is the list of its items in insertion
  order; all dict literals of the source have distinct keys.
\<close>

datatype pyval =
    PyStr pystr
  | PyNum real
  | PyList "pyval list"
  | PyDict "(pystr \<times> pyval) list"

fun get_item :: "pyval \<Rightarrow> pystr \<Rightarrow> pyval option" where
  "get_item (PyDict items) k = map_of items k"
| "get_item _ k = None"

definition TimelineEvent_to_dict :: "TimelineEvent \<Rightarrow> pyval" where
  "TimelineEvent_to_dict self =
     PyDict [(str_of ''timestamp'', PyStr (timestamp self)),
             (str_of ''description'', PyStr (TimelineEvent.description self)),
             (str_of ''source'', PyStr (source self))]"

definition IOC_to_dict :: "IOC \<Rightarrow> pyval" where
  "IOC_to_dict self =
     PyDict [(str_of ''type'', PyStr (ioc_type self)),
             (str_of ''value'', PyStr (ioc_value self)),
             (str_of ''context'', PyStr (ioc_context self))]"

definition AffectedSystem_to_dict :: "AffectedSystem \<Rightarrow> pyval" where
  "AffectedSystem_to_dict self =
     PyDict [(str_of ''hostname'', PyStr (hostname self)),
             (str_of ''ip_address'', PyStr (ip_address self)),
             (str_of ''impact'', PyStr (impact self))]"

text \<open>The dict literal that \<^verbatim>\<open>calculate_severity_score\<close> returns.\<close>

definition score_dict :: "SeverityScore \<Rightarrow> pyval" where
  "score_dict r =
     PyDict [(str_of ''score'', PyNum (score r)),
             (str_of ''rating'', PyStr (rating r)),
             (str_of ''breakdown'',
                PyDict [(str_of ''base_severity'', PyNum (of_int (base_severity (breakdown r)))),
                        (str_of ''ioc_factor'', PyNum (ioc_factor (breakdown r))),
                        (str_of ''system_factor'', PyNum (system_factor (breakdown r))),
                        (str_of ''critical_bonus'', PyNum (critical_bonus (breakdown r)))])]"

definition to_dict :: "IncidentReport \<Rightarrow> pyval" where
  "to_dict self =
     PyDict [(str_of ''incident_id'', PyStr (incident_id self)),
             (str_of ''title'', PyStr (title self)),
             (str_of ''severity'', PyStr (severity self)),
             (str_of ''category'', PyStr (category self)),
             (str_of ''analyst'', PyStr (analyst self)),
             (str_of ''description'', PyStr (IncidentReport.description self)),
             (str_of ''created_at'', PyStr (created_at self)),
             (str_of ''dates'',
                PyDict [(str_of ''detection'', PyStr (detection_date self)),
                        (str_of ''containment'', PyStr (containment_date self)),
                        (str_of ''eradication'', PyStr (eradication_date self)),
                        (str_of ''recovery'', PyStr (recovery_date self))]),
             (str_of ''executive_summary'', PyStr (executive_summary self)),
             (str_of ''severity_score'', score_dict (calculate_severity_score self)),
             (str_of ''timeline'', PyList (map TimelineEvent_to_dict (timeline_events self))),
             (str_of ''iocs'', PyList (map IOC_to_dict (iocs self))),
             (str_of ''affected_systems'',
                PyList (map AffectedSystem_to_dict (affected_systems self))),
             (str_of ''recommendations'', PyList (map PyStr (recommendations self)))]"


section \<open>Reading a serialized report back\<close>

text \<open>
  Readers for the serialized collections. They are not part of the program; they state
  what "without loss" means: the stored entities can be recovered from the output.
\<close>

fun read_str :: "pyval option \<Rightarrow> pystr option" where
  "read_str (Some (PyStr s)) = Some s"
| "read_str _ = None"

fun read_list :: "(pyval \<Rightarrow> 'a option) \<Rightarrow> pyval option \<Rightarrow> 'a list option" where
  "read_list f (Some (PyList vs)) = those (map f vs)"
| "read_list f _ = None"

definition read_event :: "pyval \<Rightarrow> TimelineEvent option" where
  "read_event d =
     (case (read_str (get_item d (str_of ''timestamp'')),
            read_str (get_item d (str_of ''description'')),
            read_str (get_item d (str_of ''source''))) of
        (Some t, Some de, Some s) \<Rightarrow> Some \<lparr>timestamp = t, description = de, source = s\<rparr>
      | _ \<Rightarrow> None)"

definition read_ioc :: "pyval \<Rightarrow> IOC option" where
  "read_ioc d =
     (case (read_str (get_item d (str_of ''type'')),
            read_str (get_item d (str_of ''value'')),
            read_str (get_item d (str_of ''context''))) of
        (Some t, Some v, Some c) \<Rightarrow> Some \<lparr>ioc_type = t, ioc_value = v, ioc_context = c\<rparr>
      | _ \<Rightarrow> None)"

definition read_system :: "pyval \<Rightarrow> AffectedSystem option" where
  "read_system d =
     (case (read_str (get_item d (str_of ''hostname'')),
            read_str (get_item d (str_of ''ip_address'')),
            read_str (get_item d (str_of ''impact''))) of
        (Some h, Some a, Some i) \<Rightarrow> Some \<lparr>hostname = h, ip_address = a, impact = i\<rparr>
      | _ \<Rightarrow> None)"


section \<open>Severity levels and their casing\<close>

definition known_levels :: "pystr list" where
  "known_levels = map fst SEVERITY_WEIGHTS"

definition ascii_lower :: "nat \<Rightarrow> nat" where
  "ascii_lower c = (if 65 \<le> c \<and> c \<le> 90 then c + 32 else c)"

text \<open>A string that is a known level up to the case of its letters, but not exactly.\<close>

definition miscased_level :: "pystr \<Rightarrow> bool" where
  "miscased_level s \<longleftrightarrow>
     s \<notin> set known_levels \<and> map ascii_lower s \<in> set (map (map ascii_lower) known_levels)"


section \<open>Facts about the scoring arithmetic\<close>

lemma severity_weight_eq_spec_base:
  "of_int (dict_get SEVERITY_WEIGHTS s 2) = spec_base s"
  by (simp add: dict_get_def SEVERITY_WEIGHTS_def spec_base_def str_of_def)

lemma score_unfold:
  "score (calculate_severity_score self) =
     py_round (min (of_int (dict_get SEVERITY_WEIGHTS (severity self) 2)
                    + min (real (length (iocs self)) * 0.5) 3
                    + min (real (length (affected_systems self)) * 0.75) 3
                    + (if severity self = str_of ''Critical'' then 1.5 else 0)) 10) 1"
  by (simp add: calculate_severity_score_def Let_def)

lemma rating_unfold:
  "rating (calculate_severity_score self) =
     (let sc = score (calculate_severity_score self)
      in if sc \<ge> 8 then str_of ''CRITICAL''
         else if sc \<ge> 6 then str_of ''HIGH''
         else if sc \<ge> 4 then str_of ''MEDIUM''
         else str_of ''LOW'')"
  by (simp add: calculate_severity_score_def Let_def)

lemma breakdown_unfold:
  "breakdown (calculate_severity_score self) =
     \<lparr>base_severity = dict_get SEVERITY_WEIGHTS (severity self) 2,
      ioc_factor = py_round (min (real (length (iocs self)) * 0.5) 3) 1,
      system_factor = py_round (min (real (length (affected_systems self)) * 0.75) 3) 1,
      critical_bonus = (if severity self = str_of ''Critical'' then 1.5 else 0)\<rparr>"
  by (simp add: calculate_severity_score_def Let_def)

lemma round_half_even_mono: "x \<le> y \<Longrightarrow> round_half_even x \<le> round_half_even y"
proof -
  assume xy: "x \<le> y"
  have fl: "\<lfloor>x\<rfloor> \<le> \<lfloor>y\<rfloor>" using xy by (rule floor_mono)
  have lo: "\<And>z. \<lfloor>z\<rfloor> \<le> round_half_even z" by (simp add: round_half_even_def Let_def)
  have hi: "\<And>z. round_half_even z \<le> \<lfloor>z\<rfloor> + 1" by (simp add: round_half_even_def Let_def)
  show ?thesis
  proof (cases "\<lfloor>x\<rfloor> = \<lfloor>y\<rfloor>")
    case True
    then show ?thesis using xy by (auto simp: round_half_even_def Let_def)
  next
    case False
    then have "\<lfloor>x\<rfloor> + 1 \<le> \<lfloor>y\<rfloor>" using fl by simp
    then show ?thesis using lo[of y] hi[of x] by linarith
  qed
qed

lemma py_round_mono: "x \<le> y \<Longrightarrow> py_round x n \<le> py_round y n"
  unfolding py_round_def
  by (intro divide_right_mono round_half_even_mono mult_right_mono iffD2[OF of_int_le_iff]) simp_all

lemma py_round_1: "py_round 1 1 = 1"
  by (simp add: py_round_def round_half_even_def)

lemma py_round_10: "py_round 10 1 = 10"
  by (simp add: py_round_def round_half_even_def)

lemma rating_strings_distinct:
  "str_of ''CRITICAL'' \<noteq> str_of ''HIGH''" "str_of ''CRITICAL'' \<noteq> str_of ''MEDIUM''"
  "str_of ''CRITICAL'' \<noteq> str_of ''LOW''" "str_of ''HIGH'' \<noteq> str_of ''MEDIUM''"
  "str_of ''HIGH'' \<noteq> str_of ''LOW''" "str_of ''MEDIUM'' \<noteq> str_of ''LOW''"
  by (simp_all add: str_of_def)

lemma weight_bounds: "1 \<le> dict_get SEVERITY_WEIGHTS s 2 \<and> dict_get SEVERITY_WEIGHTS s 2 \<le> 4"
  by (simp add: dict_get_def SEVERITY_WEIGHTS_def)

lemma raw_ge_1:
  "1 \<le> of_int (dict_get SEVERITY_WEIGHTS s 2)
                    + min (real n * 0.5) 3
                    + min (real m * 0.75) 3
                    + (if s = str_of ''Critical'' then 1.5 else (0::real))"
proof -
  have "1 \<le> dict_get SEVERITY_WEIGHTS s 2" using weight_bounds by simp
  then have "(1::real) \<le> of_int (dict_get SEVERITY_WEIGHTS s 2)" by linarith
  moreover have "0 \<le> min (real n * 0.5) 3" by simp
  moreover have "0 \<le> min (real m * 0.75) 3" by simp
  moreover have "0 \<le> (if s = str_of ''Critical'' then 1.5 else (0::real))" by simp
  ultimately show ?thesis by linarith
qed

lemma score_ge_1: "1 \<le> score (calculate_severity_score self)"
proof -
  have "py_round 1 1 \<le> score (calculate_severity_score self)"
    unfolding score_unfold using raw_ge_1 by (intro py_round_mono) simp
  then show ?thesis unfolding py_round_1 .
qed

lemma score_le_10: "score (calculate_severity_score self) \<le> 10"
proof -
  have "score (calculate_severity_score self) \<le> py_round 10 1"
    unfolding score_unfold by (intro py_round_mono) simp
  then show ?thesis unfolding py_round_10 .
qed

lemma py_round_nonneg: "0 \<le> x \<Longrightarrow> 0 \<le> py_round x n"
proof -
  assume "0 \<le> x"
  then have "py_round 0 n \<le> py_round x n" by (rule py_round_mono)
  then show ?thesis by (simp add: py_round_def round_half_even_def)
qed

lemma score_mono_counts:
  assumes "severity r' = severity r"
    and "length (iocs r) \<le> length (iocs r')"
    and "length (affected_systems r) \<le> length (affected_systems r')"
  shows "score (calculate_severity_score r) \<le> score (calculate_severity_score r')"
proof -
  have i: "min (real (length (iocs r)) * 0.5) 3 \<le> min (real (length (iocs r')) * 0.5) 3"
    using assms(2) by (intro min.mono mult_right_mono) simp_all
  have s: "min (real (length (affected_systems r)) * 0.75) 3
             \<le> min (real (length (affected_systems r')) * 0.75) 3"
    using assms(3) by (intro min.mono mult_right_mono) simp_all
  show ?thesis
    unfolding score_unfold assms(1)
    by (intro py_round_mono min.mono add_mono i s) simp_all
qed


section \<open>Facts about the timeline\<close>

lemma add_timeline_events_sorted:
  "sorted (map timestamp (timeline_events self)) \<Longrightarrow>
   sorted (map timestamp (timeline_events (add_timeline_events self calls)))"
proof (induction calls arbitrary: self)
  case Nil
  then show ?case by simp
next
  case (Cons c calls)
  obtain ts descr src where c: "c = (ts, descr, src)" by (cases c)
  have "sorted (map timestamp (timeline_events (add_timeline_event self ts descr src)))"
    by (simp add: add_timeline_event_def Let_def)
  then show ?case unfolding c by (simp add: Cons.IH)
qed

lemma add_timeline_events_stable:
  "filter (\<lambda>e. timestamp e = k) (timeline_events (add_timeline_events self calls)) =
   filter (\<lambda>e. timestamp e = k) (timeline_events self @ map event_of_call calls)"
proof (induction calls arbitrary: self)
  case Nil
  then show ?case by simp
next
  case (Cons c calls)
  obtain ts descr src where c: "c = (ts, descr, src)" by (cases c)
  have step: "filter (\<lambda>e. timestamp e = k) (timeline_events (add_timeline_event self ts descr src))
     = filter (\<lambda>e. timestamp e = k) (timeline_events self @ [event_of_call c])"
    unfolding c by (simp add: add_timeline_event_def Let_def event_of_call_def sort_key_stable)
  have "filter (\<lambda>e. timestamp e = k) (timeline_events (add_timeline_events self (c # calls)))
     = filter (\<lambda>e. timestamp e = k)
         (timeline_events (add_timeline_event self ts descr src) @ map event_of_call calls)"
    unfolding c by (simp add: Cons.IH)
  also have "\<dots> = filter (\<lambda>e. timestamp e = k) (timeline_events self @ map event_of_call (c # calls))"
    using step by simp
  finally show ?case .
qed


section \<open>Facts about the builder methods and construction\<close>

lemma add_recommendation_keeps_nonempty:
  "[] \<notin> set (recommendations self) \<Longrightarrow> [] \<notin> set (recommendations (add_recommendation self s))"
  by (simp add: add_recommendation_def)

lemma add_recommendations_keep_nonempty:
  "[] \<notin> set (recommendations self) \<Longrightarrow> [] \<notin> set (recommendations (add_recommendations self recs))"
  by (induction recs arbitrary: self) (simp_all add: add_recommendation_keeps_nonempty)

lemma rstrip_decomp: "t = rstrip t @ rev (takeWhile isspace (rev t))"
proof -
  have "rstrip t @ rev (takeWhile isspace (rev t))
          = rev (takeWhile isspace (rev t) @ dropWhile isspace (rev t))"
    unfolding rstrip_def by (simp only: rev_append)
  also have "\<dots> = t"
    by (simp only: takeWhile_dropWhile_id rev_rev_ident)
  finally show ?thesis by simp
qed

lemma strip_decomp:
  "s = takeWhile isspace s @ strip s @ rev (takeWhile isspace (rev (lstrip s)))"
proof -
  have "s = takeWhile isspace s @ lstrip s" by (simp add: lstrip_def)
  also have "lstrip s = strip s @ rev (takeWhile isspace (rev (lstrip s)))"
    unfolding strip_def by (rule rstrip_decomp)
  finally show ?thesis .
qed

lemma strip_affixes_space:
  "list_all isspace (takeWhile isspace s)
   \<and> list_all isspace (rev (takeWhile isspace (rev (lstrip s))))"
  by (auto simp: list_all_iff dest: set_takeWhileD)

lemma strip_last: "strip s \<noteq> [] \<Longrightarrow> \<not> isspace (last (strip s))"
  unfolding strip_def rstrip_def
  by (simp add: last_rev hd_dropWhile)

lemma strip_hd: "strip s \<noteq> [] \<Longrightarrow> \<not> isspace (hd (strip s))"
proof -
  assume ne: "strip s \<noteq> []"
  have d: "lstrip s = strip s @ rev (takeWhile isspace (rev (lstrip s)))"
    unfolding strip_def by (rule rstrip_decomp)
  from ne d have "lstrip s \<noteq> []" by auto
  then have "\<not> isspace (hd (lstrip s))" unfolding lstrip_def by (rule hd_dropWhile)
  moreover have "hd (lstrip s) = hd (strip s)" using ne d by (metis hd_append2)
  ultimately show ?thesis by simp
qed

lemma generate_incident_id_nonempty: "generate_incident_id env self \<noteq> []"
  by (simp add: generate_incident_id_def str_of_def)


section \<open>Facts about unknown severities\<close>

lemma known_levels_unfold:
  "known_levels = [str_of ''Low'', str_of ''Medium'', str_of ''High'', str_of ''Critical'']"
  by (simp add: known_levels_def SEVERITY_WEIGHTS_def)

lemma unknown_weight: "s \<notin> set known_levels \<Longrightarrow> dict_get SEVERITY_WEIGHTS s 2 = 2"
  by (simp add: known_levels_unfold dict_get_def SEVERITY_WEIGHTS_def)

lemma unknown_not_critical: "s \<notin> set known_levels \<Longrightarrow> s \<noteq> str_of ''Critical''"
  by (auto simp add: known_levels_unfold)

lemma miscased_unknown: "miscased_level s \<Longrightarrow> s \<notin> set known_levels"
  by (simp add: miscased_level_def)

lemma critical_lower_unknown: "str_of ''critical'' \<notin> set known_levels"
  by (simp add: known_levels_unfold str_of_def)

lemma unknown_scores_agree:
  assumes "severity a \<notin> set known_levels" "severity b \<notin> set known_levels"
    and "length (iocs a) = length (iocs b)"
    and "length (affected_systems a) = length (affected_systems b)"
  shows "calculate_severity_score a = calculate_severity_score b"
  using unknown_weight [OF assms(1)] unknown_weight [OF assms(2)]
        unknown_not_critical [OF assms(1)] unknown_not_critical [OF assms(2)] assms(3,4)
  by (simp add: calculate_severity_score_def Let_def)


section \<open>Facts about serialization\<close>

lemma those_map_Some: "(\<And>x. f (g x) = Some x) \<Longrightarrow> those (map (f \<circ> g) xs) = Some xs"
  by (induction xs) simp_all

lemma read_event_to_dict: "read_event (TimelineEvent_to_dict e) = Some e"
  by (simp add: read_event_def TimelineEvent_to_dict_def str_of_def)

lemma read_ioc_to_dict: "read_ioc (IOC_to_dict i) = Some i"
  by (simp add: read_ioc_def IOC_to_dict_def str_of_def)

lemma read_system_to_dict: "read_system (AffectedSystem_to_dict s) = Some s"
  by (simp add: read_system_def AffectedSystem_to_dict_def str_of_def)

lemma to_dict_severity:
  "get_item (to_dict self) (str_of ''severity'') = Some (PyStr (severity self))"
  by (simp add: to_dict_def str_of_def)

lemma to_dict_scalars:
  "get_item (to_dict self) (str_of ''incident_id'') = Some (PyStr (incident_id self))"
  "get_item (to_dict self) (str_of ''title'') = Some (PyStr (title self))"
  "get_item (to_dict self) (str_of ''category'') = Some (PyStr (category self))"
  "get_item (to_dict self) (str_of ''analyst'') = Some (PyStr (analyst self))"
  "get_item (to_dict self) (str_of ''description'') = Some (PyStr (IncidentReport.description self))"
  "get_item (to_dict self) (str_of ''created_at'') = Some (PyStr (created_at self))"
  "get_item (to_dict self) (str_of ''executive_summary'') = Some (PyStr (executive_summary self))"
  by (simp_all add: to_dict_def str_of_def)

lemma to_dict_dates:
  "get_item (to_dict self) (str_of ''dates'') =
     Some (PyDict [(str_of ''detection'', PyStr (detection_date self)),
                   (str_of ''containment'', PyStr (containment_date self)),
                   (str_of ''eradication'', PyStr (eradication_date self)),
                   (str_of ''recovery'', PyStr (recovery_date self))])"
  by (simp add: to_dict_def str_of_def)

lemma to_dict_severity_score:
  "get_item (to_dict self) (str_of ''severity_score'') = Some (score_dict (calculate_severity_score self))"
  by (simp add: to_dict_def str_of_def)

lemma to_dict_timeline:
  "get_item (to_dict self) (str_of ''timeline'')
     = Some (PyList (map TimelineEvent_to_dict (timeline_events self)))"
  by (simp add: to_dict_def str_of_def)

lemma to_dict_iocs:
  "get_item (to_dict self) (str_of ''iocs'') = Some (PyList (map IOC_to_dict (iocs self)))"
  by (simp add: to_dict_def str_of_def)

lemma to_dict_affected_systems:
  "get_item (to_dict self) (str_of ''affected_systems'')
     = Some (PyList (map AffectedSystem_to_dict (affected_systems self)))"
  by (simp add: to_dict_def str_of_def)

lemma to_dict_recommendations:
  "get_item (to_dict self) (str_of ''recommendations'')
     = Some (PyList (map PyStr (recommendations self)))"
  by (simp add: to_dict_def str_of_def)

lemma read_timeline: "read_list read_event (get_item (to_dict self) (str_of ''timeline'')) = Some (timeline_events self)"
  by (simp add: to_dict_timeline those_map_Some read_event_to_dict)

lemma read_iocs: "read_list read_ioc (get_item (to_dict self) (str_of ''iocs'')) = Some (iocs self)"
  by (simp add: to_dict_iocs those_map_Some read_ioc_to_dict)

lemma read_systems:
  "read_list read_system (get_item (to_dict self) (str_of ''affected_systems'')) = Some (affected_systems self)"
  by (simp add: to_dict_affected_systems those_map_Some read_system_to_dict)


section \<open>Claims\<close>

text \<open>
  C1. For every report state, the score is
  \<open>round(min(base + ioc_factor + system_factor + critical_bonus, 10.0), 1)\<close> with
  \<open>ioc_factor = min(0.5 \<times> #IOCs, 3.0)\<close>, \<open>system_factor = min(0.75 \<times> #systems, 3.0)\<close>,
  \<open>critical_bonus = 1.5\<close> exactly for severity "Critical", and \<open>base\<close> the weight of the
  severity; the breakdown reports the four components, the IOC and system factors rounded
  to one decimal place.
\<close>

theorem score_formula:
  "score (calculate_severity_score self) =
     py_round (min (spec_base (severity self)
                    + spec_ioc_factor (length (iocs self))
                    + spec_system_factor (length (affected_systems self))
                    + spec_critical_bonus (severity self)) 10.0) 1
   \<and> real_of_int (base_severity (breakdown (calculate_severity_score self)))
       = spec_base (severity self)
   \<and> ioc_factor (breakdown (calculate_severity_score self))
       = py_round (spec_ioc_factor (length (iocs self))) 1
   \<and> system_factor (breakdown (calculate_severity_score self))
       = py_round (spec_system_factor (length (affected_systems self))) 1
   \<and> critical_bonus (breakdown (calculate_severity_score self))
       = spec_critical_bonus (severity self)"
proof -
  have s: "score (calculate_severity_score self) =
     py_round (min (spec_base (severity self)
                    + spec_ioc_factor (length (iocs self))
                    + spec_system_factor (length (affected_systems self))
                    + spec_critical_bonus (severity self)) 10.0) 1"
    unfolding score_unfold severity_weight_eq_spec_base
    by (simp add: spec_ioc_factor_def spec_system_factor_def spec_critical_bonus_def
        mult.commute)
  have b: "real_of_int (base_severity (breakdown (calculate_severity_score self)))
       = spec_base (severity self)"
    by (simp add: breakdown_unfold severity_weight_eq_spec_base)
  have i: "ioc_factor (breakdown (calculate_severity_score self))
       = py_round (spec_ioc_factor (length (iocs self))) 1"
    by (simp add: breakdown_unfold spec_ioc_factor_def mult.commute)
  have y: "system_factor (breakdown (calculate_severity_score self))
       = py_round (spec_system_factor (length (affected_systems self))) 1"
    by (simp add: breakdown_unfold spec_system_factor_def mult.commute)
  have c: "critical_bonus (breakdown (calculate_severity_score self))
       = spec_critical_bonus (severity self)"
    by (simp add: breakdown_unfold spec_critical_bonus_def)
  from s b i y c show ?thesis by simp
qed

text \<open>
  C2. The rating is "CRITICAL" exactly when the score is at least 8, "HIGH" exactly when
  it is at least 6 and below 8, "MEDIUM" exactly when it is at least 4 and below 6, and
  "LOW" exactly when it is below 4.
\<close>

theorem rating_thresholds:
  "(rating (calculate_severity_score self) = str_of ''CRITICAL''
      \<longleftrightarrow> 8 \<le> score (calculate_severity_score self))
   \<and> (rating (calculate_severity_score self) = str_of ''HIGH''
      \<longleftrightarrow> 6 \<le> score (calculate_severity_score self) \<and> score (calculate_severity_score self) < 8)
   \<and> (rating (calculate_severity_score self) = str_of ''MEDIUM''
      \<longleftrightarrow> 4 \<le> score (calculate_severity_score self) \<and> score (calculate_severity_score self) < 6)
   \<and> (rating (calculate_severity_score self) = str_of ''LOW''
      \<longleftrightarrow> score (calculate_severity_score self) < 4)"
  using rating_strings_distinct rating_strings_distinct[symmetric]
  by (simp add: rating_unfold Let_def)

text \<open>
  C3. On a report whose timeline starts empty, after each call of a sequence of
  \<open>add_timeline_event\<close> calls the timeline is sorted ascending by the timestamp string,
  and for every timestamp the events carrying it appear in the order of their insertion.
\<close>

theorem timeline_sorted_stable:
  assumes "timeline_events self = []"
  shows "\<forall>n \<le> length calls.
           sorted (map timestamp (timeline_events (add_timeline_events self (take n calls))))
           \<and> (\<forall>k. filter (\<lambda>e. timestamp e = k)
                      (timeline_events (add_timeline_events self (take n calls)))
                  = filter (\<lambda>e. timestamp e = k) (map event_of_call (take n calls)))"
  using assms add_timeline_events_sorted [of self] add_timeline_events_stable [of _ self]
  by simp

theorem timeline_sorted_stable_witness:
  "timeline_events (default_fields (str_of ''A'')) = []
   \<and> sorted (map timestamp (timeline_events (add_timeline_events (default_fields (str_of ''A''))
           [(str_of ''2024-01-02'', str_of ''b'', []),
            (str_of ''2024-01-01'', str_of ''a'', []),
            (str_of ''2024-01-02'', str_of ''c'', [])])))
   \<and> filter (\<lambda>e. timestamp e = str_of ''2024-01-02'')
        (timeline_events (add_timeline_events (default_fields (str_of ''A''))
           [(str_of ''2024-01-02'', str_of ''b'', []),
            (str_of ''2024-01-01'', str_of ''a'', []),
            (str_of ''2024-01-02'', str_of ''c'', [])]))
      = [\<lparr>timestamp = str_of ''2024-01-02'', description = str_of ''b'', source = []\<rparr>,
         \<lparr>timestamp = str_of ''2024-01-02'', description = str_of ''c'', source = []\<rparr>]"
proof -
  have h: "timeline_events (default_fields (str_of ''A'')) = []"
    by (simp add: default_fields_def)
  have n: "(3::nat) \<le> length [(str_of ''2024-01-02'', str_of ''b'', []),
            (str_of ''2024-01-01'', str_of ''a'', []),
            (str_of ''2024-01-02'', str_of ''c'', [])]" by simp
  have ne: "str_of ''2024-01-01'' \<noteq> str_of ''2024-01-02''" by (simp add: str_of_def)
  show ?thesis
    using h ne timeline_sorted_stable [OF h, rule_format, OF n]
    by (simp add: event_of_call_def)
qed

text \<open>
  C4. The score does not decrease when the list of IOCs, or the list of affected systems,
  is replaced by a longer one while the rest of the report is fixed; it never exceeds 10;
  severity "Medium" with 10 IOCs and no system scores 5.0, rated MEDIUM; severity
  "Critical" with no IOC and no system scores 5.5, rated MEDIUM.
\<close>

theorem score_monotone_clamped:
  "(length xs \<le> length ys \<longrightarrow>
      score (calculate_severity_score (self\<lparr>iocs := xs\<rparr>))
        \<le> score (calculate_severity_score (self\<lparr>iocs := ys\<rparr>)))
   \<and> (length us \<le> length vs \<longrightarrow>
      score (calculate_severity_score (self\<lparr>affected_systems := us\<rparr>))
        \<le> score (calculate_severity_score (self\<lparr>affected_systems := vs\<rparr>)))
   \<and> score (calculate_severity_score self) \<le> 10
   \<and> (severity self = str_of ''Medium'' \<and> length (iocs self) = 10
        \<and> length (affected_systems self) = 0 \<longrightarrow>
      score (calculate_severity_score self) = 5.0
        \<and> rating (calculate_severity_score self) = str_of ''MEDIUM'')
   \<and> (severity self = str_of ''Critical'' \<and> length (iocs self) = 0
        \<and> length (affected_systems self) = 0 \<longrightarrow>
      score (calculate_severity_score self) = 5.5
        \<and> rating (calculate_severity_score self) = str_of ''MEDIUM'')"
proof -
  have a: "length xs \<le> length ys \<longrightarrow>
      score (calculate_severity_score (self\<lparr>iocs := xs\<rparr>))
        \<le> score (calculate_severity_score (self\<lparr>iocs := ys\<rparr>))"
    by (auto intro!: score_mono_counts)
  have b: "length us \<le> length vs \<longrightarrow>
      score (calculate_severity_score (self\<lparr>affected_systems := us\<rparr>))
        \<le> score (calculate_severity_score (self\<lparr>affected_systems := vs\<rparr>))"
    by (auto intro!: score_mono_counts)
  have m: "severity self = str_of ''Medium'' \<and> length (iocs self) = 10
        \<and> length (affected_systems self) = 0 \<longrightarrow>
      score (calculate_severity_score self) = 5.0
        \<and> rating (calculate_severity_score self) = str_of ''MEDIUM''"
    by (simp add: rating_unfold score_unfold dict_get_def SEVERITY_WEIGHTS_def str_of_def
        py_round_def round_half_even_def)
  have c: "severity self = str_of ''Critical'' \<and> length (iocs self) = 0
        \<and> length (affected_systems self) = 0 \<longrightarrow>
      score (calculate_severity_score self) = 5.5
        \<and> rating (calculate_severity_score self) = str_of ''MEDIUM''"
    by (simp add: rating_unfold score_unfold dict_get_def SEVERITY_WEIGHTS_def str_of_def
        py_round_def round_half_even_def)
  from a b m c score_le_10 show ?thesis by blast
qed

theorem score_monotone_clamped_witness:
  "length ([] :: IOC list) \<le> length [\<lparr>ioc_type = [], ioc_value = [], ioc_context = []\<rparr>]
   \<and> score (calculate_severity_score (default_fields (str_of ''A'')\<lparr>iocs := []\<rparr>))
       \<le> score (calculate_severity_score (default_fields (str_of ''A'')
             \<lparr>iocs := [\<lparr>ioc_type = [], ioc_value = [], ioc_context = []\<rparr>]\<rparr>))
   \<and> length ([] :: AffectedSystem list) \<le> length [\<lparr>hostname = [], ip_address = [], impact = []\<rparr>]
   \<and> score (calculate_severity_score (default_fields (str_of ''A'')\<lparr>affected_systems := []\<rparr>))
       \<le> score (calculate_severity_score (default_fields (str_of ''A'')
             \<lparr>affected_systems := [\<lparr>hostname = [], ip_address = [], impact = []\<rparr>]\<rparr>))
   \<and> score (calculate_severity_score
         (default_fields (str_of ''A'')
            \<lparr>iocs := replicate 10 \<lparr>ioc_type = [], ioc_value = [], ioc_context = []\<rparr>\<rparr>)) = 5
   \<and> rating (calculate_severity_score
         (default_fields (str_of ''A'')
            \<lparr>iocs := replicate 10 \<lparr>ioc_type = [], ioc_value = [], ioc_context = []\<rparr>\<rparr>))
       = str_of ''MEDIUM''
   \<and> score (calculate_severity_score
         (default_fields (str_of ''A'')\<lparr>severity := str_of ''Critical''\<rparr>)) = 5.5
   \<and> rating (calculate_severity_score
         (default_fields (str_of ''A'')\<lparr>severity := str_of ''Critical''\<rparr>)) = str_of ''MEDIUM''"
  using score_monotone_clamped [of "[]" "[\<lparr>ioc_type = [], ioc_value = [], ioc_context = []\<rparr>]"
          "default_fields (str_of ''A'')"
          "[]" "[\<lparr>hostname = [], ip_address = [], impact = []\<rparr>]"]
        score_monotone_clamped [of "[]" "[]"
          "default_fields (str_of ''A'')
             \<lparr>iocs := replicate 10 \<lparr>ioc_type = [], ioc_value = [], ioc_context = []\<rparr>\<rparr>"
          "[]" "[]"]
        score_monotone_clamped [of "[]" "[]"
          "default_fields (str_of ''A'')\<lparr>severity := str_of ''Critical''\<rparr>"
          "[]" "[]"]
  by (simp add: default_fields_def)

text \<open>
  C5. \<open>add_recommendation\<close> leaves the report unchanged when the argument stripped of
  white space is empty, and otherwise appends exactly the stripped string, which is the
  argument without a leading and a trailing run of white space and neither starts nor
  ends with white space; hence calls of \<open>add_recommendation\<close> never put an empty string
  into the recommendations.
\<close>

theorem add_recommendation_trims:
  "(strip s = [] \<longrightarrow> add_recommendation self s = self)
   \<and> (strip s \<noteq> [] \<longrightarrow>
        add_recommendation self s = self\<lparr>recommendations := recommendations self @ [strip s]\<rparr>)
   \<and> (\<exists>p q. s = p @ strip s @ q \<and> list_all isspace p \<and> list_all isspace q)
   \<and> (strip s \<noteq> [] \<longrightarrow> \<not> isspace (hd (strip s)) \<and> \<not> isspace (last (strip s)))
   \<and> ([] \<notin> set (recommendations self) \<longrightarrow>
        [] \<notin> set (recommendations (add_recommendations self recs)))"
proof -
  have d: "\<exists>p q. s = p @ strip s @ q \<and> list_all isspace p \<and> list_all isspace q"
    using strip_decomp [of s] strip_affixes_space [of s] by blast
  show ?thesis
    using d strip_hd [of s] strip_last [of s] add_recommendations_keep_nonempty [of self recs]
    by (simp add: add_recommendation_def)
qed

theorem add_recommendation_trims_witness:
  "strip (str_of ''   '') = []
   \<and> add_recommendation (default_fields (str_of ''A'')) (str_of ''   '')
       = default_fields (str_of ''A'')
   \<and> strip (str_of ''  Patch CVE-1234  '') \<noteq> []
   \<and> recommendations
         (add_recommendation (default_fields (str_of ''A'')) (str_of ''  Patch CVE-1234  ''))
       = [str_of ''Patch CVE-1234'']
   \<and> \<not> isspace (hd (strip (str_of ''  Patch CVE-1234  '')))
   \<and> [] \<notin> set (recommendations (default_fields (str_of ''A'')))
   \<and> [] \<notin> set (recommendations (add_recommendations (default_fields (str_of ''A''))
                  [str_of '''', str_of ''   '', str_of ''  Patch CVE-1234  '']))"
proof -
  have e2: "strip (str_of ''   '') = []"
    by (simp add: strip_def lstrip_def rstrip_def str_of_def isspace_def)
  have e3: "strip (str_of ''  Patch CVE-1234  '') = str_of ''Patch CVE-1234''"
    by (simp add: strip_def lstrip_def rstrip_def str_of_def isspace_def)
  have ne: "str_of ''Patch CVE-1234'' \<noteq> []"
    by (simp add: str_of_def)
  have r0: "recommendations (default_fields (str_of ''A'')) = []"
    by (simp add: default_fields_def)
  show ?thesis
    using add_recommendation_trims [of "str_of ''   ''" "default_fields (str_of ''A'')"
            "[str_of '''', str_of ''   '', str_of ''  Patch CVE-1234  '']"]
          add_recommendation_trims [of "str_of ''  Patch CVE-1234  ''"
            "default_fields (str_of ''A'')" "[]"]
    by (simp add: e2 e3 ne r0)
qed

text \<open>
  C6. For a severity string that is none of "Low", "Medium", "High", "Critical", the
  score is computed with base weight 2 and no critical bonus (the scoring function has
  no failing branch), and \<open>to_dict\<close> returns the severity string as stored.
\<close>

theorem unknown_severity_lenient:
  assumes "severity self \<notin> set known_levels"
  shows "base_severity (breakdown (calculate_severity_score self)) = 2
   \<and> critical_bonus (breakdown (calculate_severity_score self)) = 0
   \<and> score (calculate_severity_score self)
       = py_round (min (2 + min (real (length (iocs self)) * 0.5) 3
                          + min (real (length (affected_systems self)) * 0.75) 3) 10) 1
   \<and> get_item (to_dict self) (str_of ''severity'') = Some (PyStr (severity self))"
  using unknown_weight [OF assms] unknown_not_critical [OF assms]
  by (simp add: breakdown_unfold score_unfold to_dict_severity)

theorem unknown_severity_lenient_witness:
  "str_of ''Severe'' \<notin> set known_levels
   \<and> base_severity (breakdown (calculate_severity_score
         (default_fields (str_of ''A'')\<lparr>severity := str_of ''Severe''\<rparr>))) = 2
   \<and> score (calculate_severity_score
         (default_fields (str_of ''A'')\<lparr>severity := str_of ''Severe''\<rparr>)) = 2
   \<and> get_item (to_dict (default_fields (str_of ''A'')\<lparr>severity := str_of ''Severe''\<rparr>))
        (str_of ''severity'') = Some (PyStr (str_of ''Severe''))"
proof -
  have h: "severity (default_fields (str_of ''A'')\<lparr>severity := str_of ''Severe''\<rparr>) \<notin> set known_levels"
    by (simp add: known_levels_unfold str_of_def)
  show ?thesis
    using h unknown_severity_lenient [OF h]
    by (simp add: default_fields_def py_round_def round_half_even_def)
qed

text \<open>
  C7. When both a non-empty incident id and a non-empty creation time are supplied,
  \<open>__post_init__\<close> leaves the report as it is; each of the two fields is generated
  exactly when it is empty, and a report that went through construction is not changed
  by going through it again.
\<close>

theorem post_init_preserves_supplied:
  "(incident_id self \<noteq> [] \<and> created_at self \<noteq> [] \<longrightarrow> post_init env self = self)
   \<and> incident_id (post_init env self)
       = (if incident_id self = [] then generate_incident_id env self else incident_id self)
   \<and> created_at (post_init env self)
       = (if created_at self = [] then now_stamp env else created_at self)
   \<and> (now_stamp env \<noteq> [] \<longrightarrow> post_init env' (post_init env self) = post_init env self)"
  using generate_incident_id_nonempty [of env self]
  by (simp add: post_init_def Let_def)

theorem post_init_preserves_supplied_witness:
  "incident_id (default_fields (str_of ''A'')
       \<lparr>incident_id := str_of ''IR-20250211-A3F7'', created_at := str_of ''2025-02-11 09:30:00 UTC''\<rparr>) \<noteq> []
   \<and> created_at (default_fields (str_of ''A'')
       \<lparr>incident_id := str_of ''IR-20250211-A3F7'', created_at := str_of ''2025-02-11 09:30:00 UTC''\<rparr>) \<noteq> []
   \<and> post_init \<lparr>date_part = str_of ''20260101'', hash_suffix = (\<lambda>t. str_of ''0B1C''),
                 now_stamp = str_of ''2026-01-01 00:00:00 UTC''\<rparr>
        (default_fields (str_of ''A'')
          \<lparr>incident_id := str_of ''IR-20250211-A3F7'', created_at := str_of ''2025-02-11 09:30:00 UTC''\<rparr>)
      = default_fields (str_of ''A'')
          \<lparr>incident_id := str_of ''IR-20250211-A3F7'', created_at := str_of ''2025-02-11 09:30:00 UTC''\<rparr>
   \<and> now_stamp \<lparr>date_part = str_of ''20260101'', hash_suffix = (\<lambda>t. str_of ''0B1C''),
                 now_stamp = str_of ''2026-01-01 00:00:00 UTC''\<rparr> \<noteq> []
   \<and> incident_id (post_init \<lparr>date_part = str_of ''20260101'', hash_suffix = (\<lambda>t. str_of ''0B1C''),
                 now_stamp = str_of ''2026-01-01 00:00:00 UTC''\<rparr> (default_fields (str_of ''A'')))
      = str_of ''IR-20260101-0B1C''
   \<and> created_at (post_init \<lparr>date_part = str_of ''20260101'', hash_suffix = (\<lambda>t. str_of ''0B1C''),
                 now_stamp = str_of ''2026-01-01 00:00:00 UTC''\<rparr> (default_fields (str_of ''A'')))
      = str_of ''2026-01-01 00:00:00 UTC''"
  using post_init_preserves_supplied [of
          "default_fields (str_of ''A'')
            \<lparr>incident_id := str_of ''IR-20250211-A3F7'', created_at := str_of ''2025-02-11 09:30:00 UTC''\<rparr>"
          "\<lparr>date_part = str_of ''20260101'', hash_suffix = (\<lambda>t. str_of ''0B1C''),
                 now_stamp = str_of ''2026-01-01 00:00:00 UTC''\<rparr>"]
        post_init_preserves_supplied [of
          "default_fields (str_of ''A'')"
          "\<lparr>date_part = str_of ''20260101'', hash_suffix = (\<lambda>t. str_of ''0B1C''),
                 now_stamp = str_of ''2026-01-01 00:00:00 UTC''\<rparr>"]
  by (simp add: default_fields_def generate_incident_id_def str_of_def)

text \<open>
  C8. \<open>to_dict\<close> returns the identity and scalar fields under their keys, the four
  lifecycle dates grouped under "dates", the severity score computed from the current
  state, and the timeline, IOCs, affected systems and recommendations in their stored
  order, each entity recoverable from its serialized form; an entity added by a builder
  method appears accordingly.
\<close>

theorem to_dict_complete:
  "get_item (to_dict self) (str_of ''incident_id'') = Some (PyStr (incident_id self))
   \<and> get_item (to_dict self) (str_of ''title'') = Some (PyStr (title self))
   \<and> get_item (to_dict self) (str_of ''severity'') = Some (PyStr (severity self))
   \<and> get_item (to_dict self) (str_of ''category'') = Some (PyStr (category self))
   \<and> get_item (to_dict self) (str_of ''analyst'') = Some (PyStr (analyst self))
   \<and> get_item (to_dict self) (str_of ''description'')
       = Some (PyStr (IncidentReport.description self))
   \<and> get_item (to_dict self) (str_of ''created_at'') = Some (PyStr (created_at self))
   \<and> get_item (to_dict self) (str_of ''executive_summary'')
       = Some (PyStr (executive_summary self))
   \<and> get_item (to_dict self) (str_of ''dates'')
       = Some (PyDict [(str_of ''detection'', PyStr (detection_date self)),
                       (str_of ''containment'', PyStr (containment_date self)),
                       (str_of ''eradication'', PyStr (eradication_date self)),
                       (str_of ''recovery'', PyStr (recovery_date self))])
   \<and> get_item (to_dict self) (str_of ''severity_score'')
       = Some (score_dict (calculate_severity_score self))
   \<and> read_list read_event (get_item (to_dict self) (str_of ''timeline''))
       = Some (timeline_events self)
   \<and> read_list read_ioc (get_item (to_dict self) (str_of ''iocs'')) = Some (iocs self)
   \<and> read_list read_system (get_item (to_dict self) (str_of ''affected_systems''))
       = Some (affected_systems self)
   \<and> get_item (to_dict self) (str_of ''recommendations'')
       = Some (PyList (map PyStr (recommendations self)))
   \<and> read_list read_event
         (get_item (to_dict (add_timeline_event self ts descr src)) (str_of ''timeline''))
       = Some (sort_key timestamp
                 (timeline_events self @ [\<lparr>timestamp = ts, description = descr, source = src\<rparr>]))
   \<and> read_list read_ioc (get_item (to_dict (add_ioc self ty v ctx)) (str_of ''iocs''))
       = Some (iocs self @ [\<lparr>ioc_type = ty, ioc_value = v, ioc_context = ctx\<rparr>])
   \<and> read_list read_system
         (get_item (to_dict (add_affected_system self h ip imp)) (str_of ''affected_systems''))
       = Some (affected_systems self @ [\<lparr>hostname = h, ip_address = ip, impact = imp\<rparr>])
   \<and> get_item (to_dict (add_recommendation self s)) (str_of ''recommendations'')
       = Some (PyList (map PyStr
                 (recommendations self @ (if strip s = [] then [] else [strip s]))))"
proof -
  have tl: "read_list read_event
         (get_item (to_dict (add_timeline_event self ts descr src)) (str_of ''timeline''))
       = Some (sort_key timestamp
                 (timeline_events self @ [\<lparr>timestamp = ts, description = descr, source = src\<rparr>]))"
    unfolding read_timeline by (simp add: add_timeline_event_def Let_def)
  have io: "read_list read_ioc (get_item (to_dict (add_ioc self ty v ctx)) (str_of ''iocs''))
       = Some (iocs self @ [\<lparr>ioc_type = ty, ioc_value = v, ioc_context = ctx\<rparr>])"
    unfolding read_iocs by (simp add: add_ioc_def Let_def)
  have sy: "read_list read_system
         (get_item (to_dict (add_affected_system self h ip imp)) (str_of ''affected_systems''))
       = Some (affected_systems self @ [\<lparr>hostname = h, ip_address = ip, impact = imp\<rparr>])"
    unfolding read_systems by (simp add: add_affected_system_def Let_def)
  have re: "get_item (to_dict (add_recommendation self s)) (str_of ''recommendations'')
       = Some (PyList (map PyStr
                 (recommendations self @ (if strip s = [] then [] else [strip s]))))"
    unfolding to_dict_recommendations by (simp add: add_recommendation_def)
  show ?thesis
    by (intro conjI to_dict_scalars to_dict_severity to_dict_dates to_dict_severity_score
        read_timeline read_iocs read_systems to_dict_recommendations tl io sy re)
qed

text \<open>
  C9. For every report state the score lies between 1.0 and 10.0: the base weight is at
  least 1 whatever the severity string, the other components are not negative, and so a
  score of 0 cannot occur.
\<close>

theorem score_range:
  "1 \<le> score (calculate_severity_score self)
   \<and> score (calculate_severity_score self) \<le> 10
   \<and> 1 \<le> base_severity (breakdown (calculate_severity_score self))
   \<and> 0 \<le> ioc_factor (breakdown (calculate_severity_score self))
   \<and> 0 \<le> system_factor (breakdown (calculate_severity_score self))
   \<and> 0 \<le> critical_bonus (breakdown (calculate_severity_score self))
   \<and> score (calculate_severity_score self) \<noteq> 0"
proof -
  have "1 \<le> base_severity (breakdown (calculate_severity_score self))"
    using weight_bounds by (simp add: breakdown_unfold)
  moreover have "0 \<le> ioc_factor (breakdown (calculate_severity_score self))"
    by (simp add: breakdown_unfold py_round_nonneg)
  moreover have "0 \<le> system_factor (breakdown (calculate_severity_score self))"
    by (simp add: breakdown_unfold py_round_nonneg)
  moreover have "0 \<le> critical_bonus (breakdown (calculate_severity_score self))"
    by (simp add: breakdown_unfold)
  moreover have "score (calculate_severity_score self) \<noteq> 0"
    using score_ge_1[of self] by linarith
  ultimately show ?thesis using score_ge_1 score_le_10 by blast
qed

text \<open>
  C10. Severity matching is exact and case-sensitive: with severity "critical", or any
  string that is a known level only up to letter case, the base weight is 2, there is no
  critical bonus, and the result is that of any unknown severity string with the same
  numbers of IOCs and affected systems.
\<close>

theorem severity_match_case_sensitive:
  assumes "severity self = str_of ''critical'' \<or> miscased_level (severity self)"
  shows "base_severity (breakdown (calculate_severity_score self)) = 2
   \<and> critical_bonus (breakdown (calculate_severity_score self)) = 0
   \<and> (\<forall>other. severity other \<notin> set known_levels
          \<and> length (iocs other) = length (iocs self)
          \<and> length (affected_systems other) = length (affected_systems self)
        \<longrightarrow> calculate_severity_score other = calculate_severity_score self)"
proof -
  have u: "severity self \<notin> set known_levels"
    using assms critical_lower_unknown miscased_unknown by auto
  show ?thesis
    using unknown_weight [OF u] unknown_not_critical [OF u] unknown_scores_agree [OF _ u]
    by (simp add: breakdown_unfold)
qed

theorem severity_match_case_sensitive_witness:
  "(severity (default_fields (str_of ''A'')\<lparr>severity := str_of ''critical''\<rparr>) = str_of ''critical''
      \<or> miscased_level (severity (default_fields (str_of ''A'')\<lparr>severity := str_of ''critical''\<rparr>)))
   \<and> miscased_level (str_of ''critical'')
   \<and> base_severity (breakdown (calculate_severity_score
         (default_fields (str_of ''A'')\<lparr>severity := str_of ''critical''\<rparr>))) = 2
   \<and> critical_bonus (breakdown (calculate_severity_score
         (default_fields (str_of ''A'')\<lparr>severity := str_of ''critical''\<rparr>))) = 0
   \<and> calculate_severity_score (default_fields (str_of ''B'')\<lparr>severity := str_of ''Severe''\<rparr>)
       = calculate_severity_score (default_fields (str_of ''A'')\<lparr>severity := str_of ''critical''\<rparr>)
   \<and> score (calculate_severity_score
         (default_fields (str_of ''A'')\<lparr>severity := str_of ''critical''\<rparr>)) = 2
   \<and> score (calculate_severity_score
         (default_fields (str_of ''A'')\<lparr>severity := str_of ''Critical''\<rparr>)) = 5.5"
proof -
  have h: "severity (default_fields (str_of ''A'')\<lparr>severity := str_of ''critical''\<rparr>) = str_of ''critical''
      \<or> miscased_level (severity (default_fields (str_of ''A'')\<lparr>severity := str_of ''critical''\<rparr>))"
    by simp
  have m: "miscased_level (str_of ''critical'')"
    by (simp add: miscased_level_def known_levels_unfold str_of_def ascii_lower_def)
  have u: "severity (default_fields (str_of ''B'')\<lparr>severity := str_of ''Severe''\<rparr>) \<notin> set known_levels"
    by (simp add: known_levels_unfold str_of_def)
  have l: "length (iocs (default_fields (str_of ''B'')\<lparr>severity := str_of ''Severe''\<rparr>))
            = length (iocs (default_fields (str_of ''A'')\<lparr>severity := str_of ''critical''\<rparr>))
         \<and> length (affected_systems (default_fields (str_of ''B'')\<lparr>severity := str_of ''Severe''\<rparr>))
            = length (affected_systems (default_fields (str_of ''A'')\<lparr>severity := str_of ''critical''\<rparr>))"
    by (simp add: default_fields_def)
  have s2: "score (calculate_severity_score
         (default_fields (str_of ''A'')\<lparr>severity := str_of ''critical''\<rparr>)) = 2"
    by (simp add: score_unfold default_fields_def dict_get_def SEVERITY_WEIGHTS_def str_of_def
        py_round_def round_half_even_def)
  have s5: "score (calculate_severity_score
         (default_fields (str_of ''A'')\<lparr>severity := str_of ''Critical''\<rparr>)) = 5.5"
    by (simp add: score_unfold default_fields_def dict_get_def SEVERITY_WEIGHTS_def str_of_def
        py_round_def round_half_even_def)
  from severity_match_case_sensitive [OF h] u l
  have "base_severity (breakdown (calculate_severity_score
         (default_fields (str_of ''A'')\<lparr>severity := str_of ''critical''\<rparr>))) = 2
   \<and> critical_bonus (breakdown (calculate_severity_score
         (default_fields (str_of ''A'')\<lparr>severity := str_of ''critical''\<rparr>))) = 0
   \<and> calculate_severity_score (default_fields (str_of ''B'')\<lparr>severity := str_of ''Severe''\<rparr>)
       = calculate_severity_score (default_fields (str_of ''A'')\<lparr>severity := str_of ''critical''\<rparr>)"
    by blast
  with h m s2 s5 show ?thesis by blast
qed

end
